theory Spec2Isabelle
  imports Complex_Main
begin

section \<open>Python values and exceptions\<close>

text \<open>
  The program is dynamically typed Python working on decoded JSON, so the values that
  travel between the Generation Service, the client and the loop are modelled by one
  datatype. A dictionary is an association list in insertion order whose keys are
  distinct; lookup takes the entry of a key. A string is a list of code points below 256.
  Floats are idealised as reals.
\<close>

datatype pyval =
    PNone
  | PBool bool
  | PInt int
  | PFloat real
  | PStr string
  | PList "pyval list"
  | PDict "(string \<times> pyval) list"

datatype py_error =
    TypeError
  | KeyError
  | AttributeError
  | IndexError
  | ZeroDivisionError
  | UnboundLocalError
  | StatisticsError
  | ValueError
  | JSONDecodeError
  | RequestException

text \<open>Truth value testing, as \<^verbatim>\<open>if not x\<close> and \<^verbatim>\<open>if x\<close> do it.\<close>

fun truthy :: "pyval \<Rightarrow> bool" where
  "truthy PNone = False"
| "truthy (PBool b) = b"
| "truthy (PInt i) = (i \<noteq> 0)"
| "truthy (PFloat x) = (x \<noteq> 0)"
| "truthy (PStr s) = (s \<noteq> [])"
| "truthy (PList xs) = (xs \<noteq> [])"
| "truthy (PDict d) = (d \<noteq> [])"

text \<open>\<^verbatim>\<open>x[key]\<close> with a string key: only a dictionary accepts it.\<close>

fun getitem :: "pyval \<Rightarrow> string \<Rightarrow> py_error + pyval" where
  "getitem (PDict d) k = (case map_of d k of None \<Rightarrow> Inl KeyError | Some v \<Rightarrow> Inr v)"
| "getitem PNone k = Inl TypeError"
| "getitem (PBool b) k = Inl TypeError"
| "getitem (PInt i) k = Inl TypeError"
| "getitem (PFloat x) k = Inl TypeError"
| "getitem (PStr s) k = Inl TypeError"
| "getitem (PList xs) k = Inl TypeError"

text \<open>\<^verbatim>\<open>x.get(key, default)\<close>: a method of dictionaries only.\<close>

fun dict_get :: "pyval \<Rightarrow> string \<Rightarrow> pyval \<Rightarrow> py_error + pyval" where
  "dict_get (PDict d) k dflt = Inr (case map_of d k of None \<Rightarrow> dflt | Some v \<Rightarrow> v)"
| "dict_get PNone k dflt = Inl AttributeError"
| "dict_get (PBool b) k dflt = Inl AttributeError"
| "dict_get (PInt i) k dflt = Inl AttributeError"
| "dict_get (PFloat x) k dflt = Inl AttributeError"
| "dict_get (PStr s) k dflt = Inl AttributeError"
| "dict_get (PList xs) k dflt = Inl AttributeError"

text \<open>\<^verbatim>\<open>len(x)\<close>.\<close>

fun py_len :: "pyval \<Rightarrow> py_error + nat" where
  "py_len (PStr s) = Inr (length s)"
| "py_len (PList xs) = Inr (length xs)"
| "py_len (PDict d) = Inr (length d)"
| "py_len PNone = Inl TypeError"
| "py_len (PBool b) = Inl TypeError"
| "py_len (PInt i) = Inl TypeError"
| "py_len (PFloat x) = Inl TypeError"

text \<open>\<^verbatim>\<open>{**d, key: value}\<close> on a dictionary: replace in place or append.\<close>

fun dict_set :: "(string \<times> pyval) list \<Rightarrow> string \<Rightarrow> pyval \<Rightarrow> (string \<times> pyval) list" where
  "dict_set [] k v = [(k, v)]"
| "dict_set ((k', v') # d) k v = (if k' = k then (k, v) # d else (k', v') # dict_set d k v)"

fun dict_update :: "(string \<times> pyval) list \<Rightarrow> (string \<times> pyval) list \<Rightarrow> (string \<times> pyval) list" where
  "dict_update d [] = d"
| "dict_update d ((k, v) # e) = dict_update (dict_set d k v) e"

subsection \<open>String operations\<close>

text \<open>\<^verbatim>\<open>str.isspace\<close> on the code points below 256.\<close>

definition is_space :: "char \<Rightarrow> bool" where
  "is_space c = (of_char c \<in> {9, 10, 11, 12, 13, 28, 29, 30, 31, 32, 133, 160 :: nat})"

definition strip :: "string \<Rightarrow> string" where
  "strip s = rev (dropWhile is_space (rev (dropWhile is_space s)))"

text \<open>\<^verbatim>\<open>s.split('\n')\<close>: the empty string gives one empty piece.\<close>

fun split_nl :: "string \<Rightarrow> string list" where
  "split_nl [] = [[]]"
| "split_nl (c # cs) =
     (if c = CHR 0x0A then [] # split_nl cs
      else (case split_nl cs of [] \<Rightarrow> [[c]] | l # ls \<Rightarrow> (c # l) # ls))"

text \<open>
  \<^verbatim>\<open>"".join(r.get("response", "") for r in responses)\<close>: the generator is run to the
  end first (the first value without \<^verbatim>\<open>get\<close> raises), then every item must be a string.
\<close>

fun get_each :: "pyval list \<Rightarrow> string \<Rightarrow> pyval \<Rightarrow> py_error + pyval list" where
  "get_each [] k dflt = Inr []"
| "get_each (r # rs) k dflt =
     (case dict_get r k dflt of
        Inl e \<Rightarrow> Inl e
      | Inr v \<Rightarrow> (case get_each rs k dflt of Inl e \<Rightarrow> Inl e | Inr vs \<Rightarrow> Inr (v # vs)))"

fun join_empty :: "pyval list \<Rightarrow> py_error + string" where
  "join_empty [] = Inr []"
| "join_empty (PStr s # vs) =
     (case join_empty vs of Inl e \<Rightarrow> Inl e | Inr t \<Rightarrow> Inr (s @ t))"
| "join_empty (v # vs) = Inl TypeError"

section \<open>The Generation Client: \<^verbatim>\<open>OllamaAPI.generate_response\<close>\<close>

text \<open>
  What \<^verbatim>\<open>requests.post\<close> does is the environment: it raises, or it returns a response
  with a status code, a body text and the outcome of \<^verbatim>\<open>response.json()\<close>
  (\<open>None\<close> when that raises \<^verbatim>\<open>JSONDecodeError\<close>). \<^verbatim>\<open>json.loads\<close>, applied to single
  lines, is a parameter \<open>loads\<close> with \<open>None\<close> for \<^verbatim>\<open>JSONDecodeError\<close>.
\<close>

record http_response =
  status_code :: int
  body_text :: string
  json_result :: "pyval option"

datatype post_outcome = PostRaised | PostReturned http_response

text \<open>The \<^verbatim>\<open>for line in ...\<close> loop with its inner \<^verbatim>\<open>try\<close>.\<close>

fun parse_lines :: "(string \<Rightarrow> pyval option) \<Rightarrow> string list \<Rightarrow> pyval list" where
  "parse_lines loads [] = []"
| "parse_lines loads (line # rest) =
     (if line \<noteq> []
      then (case loads line of
              None \<Rightarrow> parse_lines loads rest
            | Some v \<Rightarrow> v # parse_lines loads rest)
      else parse_lines loads rest)"

definition combine_responses :: "string \<Rightarrow> pyval list \<Rightarrow> py_error + pyval" where
  "combine_responses model responses =
     (case get_each responses ''response'' (PStr []) of
        Inl e \<Rightarrow> Inl e
      | Inr parts \<Rightarrow>
          (case join_empty parts of
             Inl e \<Rightarrow> Inl e
           | Inr joined \<Rightarrow>
               (case responses of
                  [] \<Rightarrow> Inl IndexError
                | first # _ \<Rightarrow>
                    (case dict_get first ''created_at'' (PStr []) of
                       Inl e \<Rightarrow> Inl e
                     | Inr created \<Rightarrow>
                         Inr (PDict [(''response'', PStr joined),
                                     (''model'', PStr model),
                                     (''created_at'', created)])))))"

definition make_payload :: "string \<Rightarrow> pyval \<Rightarrow> (string \<times> pyval) list option \<Rightarrow> pyval" where
  "make_payload model prompt params =
     PDict (dict_update
       [(''model'', PStr model), (''prompt'', prompt), (''stream'', PBool False)]
       (case params of None \<Rightarrow> [] | Some p \<Rightarrow> p))"

text \<open>The body of the outer \<^verbatim>\<open>try\<close>.\<close>

definition generate_response_try ::
  "(pyval \<Rightarrow> post_outcome) \<Rightarrow> (string \<Rightarrow> pyval option) \<Rightarrow>
   string \<Rightarrow> pyval \<Rightarrow> (string \<times> pyval) list option \<Rightarrow> py_error + pyval" where
  "generate_response_try requests_post loads model prompt params =
     (case requests_post (make_payload model prompt params) of
        PostRaised \<Rightarrow> Inl RequestException
      | PostReturned response \<Rightarrow>
          if status_code response = 200
          then (case json_result response of
                  Some v \<Rightarrow> Inr v
                | None \<Rightarrow>
                    (let responses = parse_lines loads (split_nl (strip (body_text response)))
                     in if responses \<noteq> [] then combine_responses model responses
                        else Inr PNone))
          else Inr PNone)"

text \<open>The whole method: \<^verbatim>\<open>except Exception\<close> turns every exception into \<^verbatim>\<open>None\<close>.\<close>

definition generate_response ::
  "(pyval \<Rightarrow> post_outcome) \<Rightarrow> (string \<Rightarrow> pyval option) \<Rightarrow>
   string \<Rightarrow> pyval \<Rightarrow> (string \<times> pyval) list option \<Rightarrow> py_error + pyval" where
  "generate_response requests_post loads model prompt params =
     (case generate_response_try requests_post loads model prompt params of
        Inl e \<Rightarrow> Inr PNone
      | Inr v \<Rightarrow> Inr v)"

text \<open>
  A transport or protocol failure: the post raised, the status is not 200, or the body
  decodes neither as a whole nor in any of its lines.
\<close>

definition transport_failure :: "(string \<Rightarrow> pyval option) \<Rightarrow> post_outcome \<Rightarrow> bool" where
  "transport_failure loads out =
     (case out of
        PostRaised \<Rightarrow> True
      | PostReturned response \<Rightarrow>
          (if status_code response = 200
           then (case json_result response of
                   Some v \<Rightarrow> False
                 | None \<Rightarrow> parse_lines loads (split_nl (strip (body_text response))) = [])
           else True))"

text \<open>
  The failure record of the specification: a dictionary with \<^verbatim>\<open>success\<close> false and an
  error kind among the four named ones.
\<close>

definition error_kinds :: "string list" where
  "error_kinds = [''network_error'', ''bad_status'', ''decode_error'', ''timeout'']"

fun is_failure_result :: "pyval \<Rightarrow> bool" where
  "is_failure_result (PDict d) =
     (map_of d ''success'' = Some (PBool False) \<and>
      (case map_of d ''error_kind'' of Some (PStr k) \<Rightarrow> k \<in> set error_kinds | _ \<Rightarrow> False))"
| "is_failure_result v = False"




section \<open>The Scorer\<close>

text \<open>
  \<^verbatim>\<open>OptimizationLoop._calculate_improvement\<close>:
  \<^verbatim>\<open>return len(new_response) / len(original_response)\<close>. The left operand is evaluated
  first; dividing by a zero length raises.
\<close>

definition loop_calculate_improvement :: "pyval \<Rightarrow> pyval \<Rightarrow> py_error + real" where
  "loop_calculate_improvement original_response new_response =
     (case py_len new_response of
        Inl e \<Rightarrow> Inl e
      | Inr n \<Rightarrow>
          (case py_len original_response of
             Inl e \<Rightarrow> Inl e
           | Inr m \<Rightarrow> if m = 0 then Inl ZeroDivisionError else Inr (real n / real m)))"

text \<open>
  \<^verbatim>\<open>PromptOptimizationPipeline._calculate_improvement\<close>:
  \<^verbatim>\<open>len(final) / len(initial) if len(initial) > 0 else 0\<close>. The condition is evaluated
  first. The integer \<^verbatim>\<open>0\<close> of the else branch is the real number zero here.
\<close>

definition pipeline_calculate_improvement :: "pyval \<Rightarrow> pyval \<Rightarrow> py_error + real" where
  "pipeline_calculate_improvement initial final =
     (case py_len initial of
        Inl e \<Rightarrow> Inl e
      | Inr m \<Rightarrow>
          if m > 0
          then (case py_len final of
                  Inl e \<Rightarrow> Inl e
                | Inr n \<Rightarrow> Inr (real n / real m))
          else Inr 0)"

section \<open>The Refinement Loop: \<^verbatim>\<open>OptimizationLoop.optimize_prompt\<close>\<close>

text \<open>
  \<^verbatim>\<open>OptimizationResult\<close>. A \<^verbatim>\<open>datetime\<close> is a count of microseconds; the metadata is a
  dictionary.
\<close>

record optimization_result =
  original_prompt :: pyval
  optimized_prompt :: pyval
  initial_response :: pyval
  final_response :: pyval
  improvement_score :: real
  created_at :: int
  metadata :: "(string \<times> pyval) list"

text \<open>The two entries of the configuration the loop reads: the names of the models.\<close>

record config =
  model1_name :: string
  model2_name :: string

text \<open>
  The local variables that live across iterations. \<open>response\<close> is \<open>None\<close> while the
  variable is unbound. \<open>stub\<close> is the state of the Generation Service and \<open>ticks\<close> counts
  the readings of the clock taken so far.
\<close>

record 's loop_state =
  current_prompt :: pyval
  best_score :: real
  best_result :: "optimization_result option"
  response :: "pyval option"
  stub :: 's
  ticks :: nat

datatype 'a flow = Raise py_error | Break 'a | Continue 'a

text \<open>\<^verbatim>\<open>(datetime.now() - start_time).total_seconds()\<close>\<close>

definition total_seconds :: "int \<Rightarrow> int \<Rightarrow> real" where
  "total_seconds later earlier = real_of_int (later - earlier) / 1000000"

text \<open>
  The first part of one iteration (lines 35 to 66): the executor call, the optimizer call,
  the executor call on the candidate and the score. The result is \<open>Break\<close> when a checked
  call returned a false value, \<open>Raise\<close> when an exception escapes, and otherwise
  \<open>Continue\<close> with the state after the three calls, the executor's response text, the
  candidate prompt, the candidate's response text and the score. On \<open>Break\<close> only the
  state matters; the other components are placeholders.

  The Generation Client is the parameter \<open>gen\<close>: from the state of the service, a model
  name and a prompt to the returned value and the next state of the service.
  \<^verbatim>\<open>_create_optimization_prompt\<close> fills a template that is read from a file, so it is the
  parameter \<open>create_optimization_prompt\<close>.
\<close>

definition run_round ::
  "('s \<Rightarrow> string \<Rightarrow> pyval \<Rightarrow> pyval \<times> 's) \<Rightarrow> (pyval \<Rightarrow> pyval \<Rightarrow> py_error + pyval) \<Rightarrow>
   config \<Rightarrow> 's loop_state \<Rightarrow> ('s loop_state \<times> pyval \<times> pyval \<times> pyval \<times> real) flow" where
  "run_round gen create_optimization_prompt cfg st =
     (case gen (stub st) (model1_name cfg) (current_prompt st) of
        (resp, s1) \<Rightarrow>
          (let st1 = st\<lparr>response := Some resp, stub := s1\<rparr>
           in if \<not> truthy resp then Break (st1, PNone, PNone, PNone, 0)
              else
                (case getitem resp ''response'' of
                   Inl e \<Rightarrow> Raise e
                 | Inr original_response \<Rightarrow>
                     (case create_optimization_prompt (current_prompt st) original_response of
                        Inl e \<Rightarrow> Raise e
                      | Inr optimization_prompt \<Rightarrow>
                          (case gen s1 (model2_name cfg) optimization_prompt of
                             (optimization_result, s2) \<Rightarrow>
                               (let st2 = st1\<lparr>stub := s2\<rparr>
                                in if \<not> truthy optimization_result
                                   then Break (st2, PNone, PNone, PNone, 0)
                                   else
                                     (case getitem optimization_result ''response'' of
                                        Inl e \<Rightarrow> Raise e
                                      | Inr new_prompt \<Rightarrow>
                                          (case gen s2 (model1_name cfg) new_prompt of
                                             (new_response, s3) \<Rightarrow>
                                               (case getitem new_response ''response'' of
                                                  Inl e \<Rightarrow> Raise e
                                                | Inr new_text \<Rightarrow>
                                                    (case loop_calculate_improvement
                                                            original_response new_text of
                                                       Inl e \<Rightarrow> Raise e
                                                     | Inr score \<Rightarrow>
                                                         Continue (st2\<lparr>stub := s3\<rparr>,
                                                                   original_response, new_prompt,
                                                                   new_text, score)))))))))))"

text \<open>The whole iteration: \<open>run_round\<close>, then the update of lines 69 to 85.\<close>

definition loop_body ::
  "('s \<Rightarrow> string \<Rightarrow> pyval \<Rightarrow> pyval \<times> 's) \<Rightarrow> (pyval \<Rightarrow> pyval \<Rightarrow> py_error + pyval) \<Rightarrow>
   (nat \<Rightarrow> int) \<Rightarrow> config \<Rightarrow> string \<Rightarrow> real \<Rightarrow> nat \<Rightarrow> 's loop_state \<Rightarrow> 's loop_state flow" where
  "loop_body gen create_optimization_prompt clock cfg prompt improvement_threshold iteration st =
     (case run_round gen create_optimization_prompt cfg st of
        Raise e \<Rightarrow> Raise e
      | Break (st', _) \<Rightarrow> Break st'
      | Continue (st', original_response, new_prompt, new_text, score) \<Rightarrow>
          if score > best_score st' + improvement_threshold
          then Continue (st'\<lparr>
                 best_score := score,
                 current_prompt := new_prompt,
                 best_result := Some \<lparr>
                   original_prompt = PStr prompt,
                   optimized_prompt = new_prompt,
                   initial_response = original_response,
                   final_response = new_text,
                   improvement_score = score,
                   created_at = clock (ticks st'),
                   metadata = [(''iterations'', PInt (int iteration + 1)),
                               (''duration'',
                                PFloat (total_seconds (clock (ticks st' + 1)) (clock 0)))]\<rparr>,
                 ticks := ticks st' + 2\<rparr>)
          else Break st')"

text \<open>The \<^verbatim>\<open>for\<close> loop over the iteration numbers.\<close>

fun run_loop :: "(nat \<Rightarrow> 'a \<Rightarrow> 'a flow) \<Rightarrow> nat list \<Rightarrow> 'a \<Rightarrow> py_error + 'a" where
  "run_loop body [] st = Inr st"
| "run_loop body (i # rest) st =
     (case body i st of
        Raise e \<Rightarrow> Inl e
      | Break st' \<Rightarrow> Inr st'
      | Continue st' \<Rightarrow> run_loop body rest st')"

text \<open>
  The statement after the loop:
  \<^verbatim>\<open>return best_result or OptimizationResult(..., initial_response=response["response"], ...)\<close>.
\<close>

definition final_result :: "(nat \<Rightarrow> int) \<Rightarrow> string \<Rightarrow> 's loop_state \<Rightarrow> py_error + optimization_result" where
  "final_result clock prompt st =
     (case best_result st of
        Some r \<Rightarrow> Inr r
      | None \<Rightarrow>
          (case response st of
             None \<Rightarrow> Inl UnboundLocalError
           | Some resp \<Rightarrow>
               (case getitem resp ''response'' of
                  Inl e \<Rightarrow> Inl e
                | Inr text \<Rightarrow>
                    Inr \<lparr>original_prompt = PStr prompt,
                         optimized_prompt = PStr prompt,
                         initial_response = text,
                         final_response = text,
                         improvement_score = 0,
                         created_at = clock (ticks st),
                         metadata = [(''iterations'', PInt 0)]\<rparr>)))"

definition initial_state :: "'s \<Rightarrow> string \<Rightarrow> 's loop_state" where
  "initial_state s0 prompt =
     \<lparr>current_prompt = PStr prompt, best_score = 0, best_result = None,
      response = None, stub = s0, ticks = 1\<rparr>"

definition optimize_prompt ::
  "('s \<Rightarrow> string \<Rightarrow> pyval \<Rightarrow> pyval \<times> 's) \<Rightarrow> (pyval \<Rightarrow> pyval \<Rightarrow> py_error + pyval) \<Rightarrow>
   (nat \<Rightarrow> int) \<Rightarrow> config \<Rightarrow> 's \<Rightarrow> string \<Rightarrow> int \<Rightarrow> real \<Rightarrow> py_error + optimization_result" where
  "optimize_prompt gen create_optimization_prompt clock cfg s0 prompt max_iterations
                   improvement_threshold =
     (case run_loop
             (loop_body gen create_optimization_prompt clock cfg prompt improvement_threshold)
             [0..<nat max_iterations] (initial_state s0 prompt) of
        Inl e \<Rightarrow> Inl e
      | Inr st \<Rightarrow> final_result clock prompt st)"

text \<open>The rounds of a run that accepted their candidate.\<close>

fun accepted_rounds :: "(nat \<Rightarrow> 'a \<Rightarrow> 'a flow) \<Rightarrow> nat list \<Rightarrow> 'a \<Rightarrow> nat" where
  "accepted_rounds body [] st = 0"
| "accepted_rounds body (i # rest) st =
     (case body i st of
        Raise e \<Rightarrow> 0
      | Break st' \<Rightarrow> 0
      | Continue st' \<Rightarrow> Suc (accepted_rounds body rest st'))"

text \<open>The fields of a result that do not come from the clock.\<close>

definition timeless ::
  "optimization_result \<Rightarrow> pyval \<times> pyval \<times> pyval \<times> pyval \<times> real \<times> pyval option" where
  "timeless r =
     (original_prompt r, optimized_prompt r, initial_response r, final_response r,
      improvement_score r, map_of (metadata r) ''iterations'')"

section \<open>The Benchmark Harness: \<^verbatim>\<open>AdvancedModelTester\<close>\<close>

subsection \<open>Numbers and strings\<close>










subsection \<open>\<^verbatim>\<open>AdvancedModelTester.generate_response\<close>\<close>












subsection \<open>\<^verbatim>\<open>calculate_quality_metrics\<close>\<close>



subsection \<open>\<^verbatim>\<open>test_model_categories\<close>\<close>










subsection \<open>\<^verbatim>\<open>test_concurrent_performance\<close>\<close>

record concurrent_result =
  iteration :: int
  total_time :: real
  model1_success :: bool
  model2_success :: bool
  model1_time :: real
  model2_time :: real
  both_successful :: bool






section \<open>The Benchmark Harness: \<^verbatim>\<open>ModelTester.test_concurrent_models\<close>\<close>
















section \<open>Invariants and relations of the loop\<close>

text \<open>
  After \<open>k\<close> accepted rounds the best result is absent when \<open>k\<close> is zero, and otherwise
  records \<open>k\<close> iterations and a score that is not negative.
\<close>

definition count_inv :: "nat \<Rightarrow> 's loop_state \<Rightarrow> bool" where
  "count_inv k st =
     (case best_result st of
        None \<Rightarrow> k = 0
      | Some r \<Rightarrow> 0 < k \<and> map_of (metadata r) ''iterations'' = Some (PInt (int k)) \<and>
                  0 \<le> improvement_score r)"

text \<open>Two loop states that differ at most in what was read from the clock.\<close>

definition same_but_time :: "'s loop_state \<Rightarrow> 's loop_state \<Rightarrow> bool" where
  "same_but_time st1 st2 =
     (current_prompt st1 = current_prompt st2 \<and> best_score st1 = best_score st2 \<and>
      response st1 = response st2 \<and> stub st1 = stub st2 \<and>
      map_option timeless (best_result st1) = map_option timeless (best_result st2))"

fun flow_rel :: "('a \<Rightarrow> 'b \<Rightarrow> bool) \<Rightarrow> 'a flow \<Rightarrow> 'b flow \<Rightarrow> bool" where
  "flow_rel R (Raise e) (Raise e') = (e = e')"
| "flow_rel R (Break a) (Break b) = R a b"
| "flow_rel R (Continue a) (Continue b) = R a b"
| "flow_rel R x y = False"


section \<open>Concrete inputs\<close>

text \<open>
  A Generation Client stub that answers the \<open>n\<close>-th call with the \<open>n\<close>-th entry of a
  script and fails (returns \<^verbatim>\<open>None\<close>) afterwards; its state is the number of calls made.
\<close>

definition reply :: "string \<Rightarrow> pyval" where
  "reply s = PDict [(''response'', PStr s)]"

fun scripted_stub :: "pyval list \<Rightarrow> nat \<Rightarrow> string \<Rightarrow> pyval \<Rightarrow> pyval \<times> nat" where
  "scripted_stub replies n model prompt =
     (if n < length replies then replies ! n else PNone, Suc n)"

definition echo_template :: "pyval \<Rightarrow> pyval \<Rightarrow> py_error + pyval" where
  "echo_template p r = Inr (PList [p, r])"

definition test_config :: config where
  "test_config = \<lparr>model1_name = ''mistral:7b'', model2_name = ''llama3.2:3b''\<rparr>"

text \<open>Two clocks: readings one second apart from zero, and two seconds apart from five.\<close>

definition clock_a :: "nat \<Rightarrow> int" where
  "clock_a k = 1000000 * int k"

definition clock_b :: "nat \<Rightarrow> int" where
  "clock_b k = 5000000 + 2000000 * int k"

text \<open>
  The scenario of the specification: a 19 character answer, the candidate prompt, and a
  57 character answer to the candidate.
\<close>

definition scenario :: "pyval list" where
  "scenario = [reply ''AI is a technology.'', reply ''Explain AI in depth'',
               reply ''AI is a broad field of computer science and engineering..'']"

text \<open>What \<^verbatim>\<open>json.loads\<close> gives on the handful of lines used below.\<close>

definition json_table :: "string \<Rightarrow> pyval option" where
  \<open>json_table = map_of
     [(''{"response": "Hel", "created_at": "t0"}'',
         PDict [(''response'', PStr ''Hel''), (''created_at'', PStr ''t0'')]),
      (''{"response": "lo"}'', PDict [(''response'', PStr ''lo'')]),
      (''{"done": true}'', PDict [(''done'', PBool True)]),
      (''42'', PInt 42)]\<close>

definition post_status_500 :: "pyval \<Rightarrow> post_outcome" where
  "post_status_500 payload =
     PostReturned \<lparr>status_code = 500, body_text = ''Internal Server Error'',
                   json_result = None\<rparr>"





text \<open>
  The scenario run against \<open>clock_a\<close>: the state after the three calls of the first
  round, the result that round records, and the state after its acceptance.
\<close>

definition scenario_round_state :: "nat loop_state" where
  "scenario_round_state =
     \<lparr>current_prompt = PStr ''Tell me about AI'', best_score = 0, best_result = None,
      response = Some (reply ''AI is a technology.''), stub = 3, ticks = 1\<rparr>"

definition scenario_result :: optimization_result where
  "scenario_result =
     \<lparr>original_prompt = PStr ''Tell me about AI'',
      optimized_prompt = PStr ''Explain AI in depth'',
      initial_response = PStr ''AI is a technology.'',
      final_response = PStr ''AI is a broad field of computer science and engineering..'',
      improvement_score = 3, created_at = 1000000,
      metadata = [(''iterations'', PInt 1), (''duration'', PFloat 2)]\<rparr>"

definition scenario_accepted_state :: "nat loop_state" where
  "scenario_accepted_state =
     \<lparr>current_prompt = PStr ''Explain AI in depth'', best_score = 3,
      best_result = Some scenario_result,
      response = Some (reply ''AI is a technology.''), stub = 3, ticks = 3\<rparr>"













section \<open>The Generation Client: results\<close>

subsection \<open>Line-delimited decoding\<close>











subsection \<open>Failures\<close>

text \<open>
  C7 as stated: a transport or protocol failure yields a result with \<^verbatim>\<open>success\<close> false
  and an error kind. On a response with status 500 the call returns \<^verbatim>\<open>None\<close>, which is
  no such record.
\<close>

theorem generate_response_no_failure_record:
  "transport_failure json_table
     (post_status_500 (make_payload ''mistral:7b'' (PStr ''Hi'') None)) \<and>
   generate_response post_status_500 json_table ''mistral:7b'' (PStr ''Hi'') None = Inr PNone \<and>
   \<not> is_failure_result PNone"
  by (simp add: transport_failure_def post_status_500_def generate_response_def
        generate_response_try_def)

text \<open>
  C7, amended. When the post raises, the status is not 200, or the body decodes neither
  as a whole nor in any line, the call returns \<^verbatim>\<open>None\<close>, with no error kind; and the
  call never raises to its caller.
\<close>

theorem generate_response_failure_returns_none:
  "(transport_failure loads (requests_post (make_payload model prompt params)) \<longrightarrow>
      generate_response requests_post loads model prompt params = Inr PNone) \<and>
   (\<exists>v. generate_response requests_post loads model prompt params = Inr v)"
  by (auto simp: transport_failure_def generate_response_def generate_response_try_def
           split: post_outcome.splits sum.splits option.splits if_splits)

theorem generate_response_failure_returns_none_witness:
  "transport_failure json_table
     (post_status_500 (make_payload ''mistral:7b'' (PStr ''Hi'') None)) \<and>
   generate_response post_status_500 json_table ''mistral:7b'' (PStr ''Hi'') None = Inr PNone"
  using generate_response_failure_returns_none
    [of json_table post_status_500 "''mistral:7b''" "PStr ''Hi''" None]
  by (simp add: transport_failure_def post_status_500_def)


section \<open>The Scorer: results\<close>

lemma loop_calculate_improvement_nonneg:
  "loop_calculate_improvement a b = Inr x \<Longrightarrow> 0 \<le> x"
  by (auto simp: loop_calculate_improvement_def split: sum.splits if_splits)

text \<open>
  The pipeline's scorer is total on strings: the ratio of the lengths, and zero for an
  empty initial response.
\<close>

lemma pipeline_calculate_improvement_strings:
  "pipeline_calculate_improvement (PStr initial) (PStr final) =
     Inr (if 0 < length initial then real (length final) / real (length initial) else 0)"
  by (simp add: pipeline_calculate_improvement_def)

text \<open>The loop's scorer gives the same ratio when the original response is not empty.\<close>

lemma loop_calculate_improvement_strings:
  "original \<noteq> [] \<Longrightarrow>
   loop_calculate_improvement (PStr original) (PStr new) =
     Inr (real (length new) / real (length original))"
  by (simp add: loop_calculate_improvement_def)

text \<open>
  C3. The score is the ratio of the lengths, and 0.0 for an empty original response,
  without a division by zero. The scorer of the Refinement Loop has no guard: on the empty
  original response \<^verbatim>\<open>""\<close> and the new response \<^verbatim>\<open>"abc"\<close> it raises
  \<^verbatim>\<open>ZeroDivisionError\<close>, where the pipeline's scorer returns zero.
\<close>

theorem loop_calculate_improvement_empty_original:
  "loop_calculate_improvement (PStr '''') (PStr ''abc'') = Inl ZeroDivisionError \<and>
   pipeline_calculate_improvement (PStr '''') (PStr ''abc'') = Inr 0"
  by (simp add: loop_calculate_improvement_def pipeline_calculate_improvement_def)

section \<open>The Refinement Loop: results\<close>

subsection \<open>One round\<close>

lemma run_round_Continue:
  assumes "run_round gen fmt cfg st = Continue (st', orig, cand, new, score)"
  shows "best_score st' = best_score st \<and> best_result st' = best_result st \<and>
         ticks st' = ticks st \<and> 0 \<le> score"
  using assms
  by (auto simp: run_round_def Let_def split: prod.splits sum.splits if_splits
           dest: loop_calculate_improvement_nonneg)

lemma run_round_Break:
  assumes "run_round gen fmt cfg st = Break (st', x)"
  shows "best_score st' = best_score st \<and> best_result st' = best_result st \<and>
         ticks st' = ticks st \<and> response st' \<noteq> None"
  using assms
  by (auto simp: run_round_def Let_def split: prod.splits sum.splits if_splits)

lemma loop_body_Break:
  assumes "loop_body gen fmt clock cfg prompt thr i st = Break st'"
  shows "best_result st' = best_result st"
  using assms
  by (auto simp: loop_body_def split: flow.splits prod.splits if_splits
           dest: run_round_Break run_round_Continue)

lemma loop_body_Continue:
  assumes "loop_body gen fmt clock cfg prompt thr i st = Continue st'"
  shows "\<exists>r. best_result st' = Some r \<and>
             map_of (metadata r) ''iterations'' = Some (PInt (int i + 1)) \<and>
             0 \<le> improvement_score r"
  using assms
  by (auto simp: loop_body_def split: flow.splits prod.splits if_splits
           dest: run_round_Continue)




subsection \<open>The count of accepted rounds\<close>

lemma run_loop_count:
  assumes "count_inv k st"
    and "run_loop (loop_body gen fmt clock cfg prompt thr) [k..<n] st = Inr st'"
  shows "count_inv (k + accepted_rounds (loop_body gen fmt clock cfg prompt thr) [k..<n] st) st'"
  using assms
proof (induction "n - k" arbitrary: k st)
  case 0
  then show ?case by simp
next
  case (Suc m)
  then have lt: "k < n" by simp
  then have list: "[k..<n] = k # [Suc k..<n]" by (simp add: upt_rec)
  show ?case
  proof (cases "loop_body gen fmt clock cfg prompt thr k st")
    case (Raise e)
    with Suc.prems list show ?thesis by simp
  next
    case (Break st1)
    with Suc.prems list have "st' = st1" by simp
    with Break Suc.prems(1) list show ?thesis
      by (simp add: count_inv_def loop_body_Break)
  next
    case (Continue st1)
    from loop_body_Continue [OF Continue] have inv1: "count_inv (Suc k) st1"
      by (auto simp: count_inv_def)
    from Suc.hyps(2) lt have m: "m = n - Suc k" by simp
    from Suc.prems(2) list Continue
    have run: "run_loop (loop_body gen fmt clock cfg prompt thr) [Suc k..<n] st1 = Inr st'"
      by simp
    from Suc.hyps(1) [OF m inv1 run] list Continue show ?thesis by simp
  qed
qed

lemma optimize_prompt_count_inv:
  assumes "optimize_prompt gen fmt clock cfg s0 prompt n thr = Inr r"
  shows "\<exists>st. run_loop (loop_body gen fmt clock cfg prompt thr)
                [0..<nat n] (initial_state s0 prompt) = Inr st \<and>
              count_inv (accepted_rounds (loop_body gen fmt clock cfg prompt thr)
                           [0..<nat n] (initial_state s0 prompt)) st \<and>
              final_result clock prompt st = Inr r"
proof -
  let ?body = "loop_body gen fmt clock cfg prompt thr"
  from assms obtain st where run: "run_loop ?body [0..<nat n] (initial_state s0 prompt) = Inr st"
    and fin: "final_result clock prompt st = Inr r"
    by (auto simp: optimize_prompt_def split: sum.splits)
  have "count_inv 0 (initial_state s0 prompt)"
    by (simp add: count_inv_def initial_state_def)
  from run_loop_count [OF this run] run fin show ?thesis by auto
qed


text \<open>
  C2. Every result the loop returns has a score that is not negative, and when its
  recorded iteration count is 0 its optimized prompt is the original prompt.
\<close>

theorem optimize_prompt_result_invariant:
  assumes "optimize_prompt gen fmt clock cfg s0 prompt n thr = Inr r"
  shows "0 \<le> improvement_score r \<and>
         (map_of (metadata r) ''iterations'' = Some (PInt 0) \<longrightarrow>
          optimized_prompt r = PStr prompt)"
proof -
  from optimize_prompt_count_inv [OF assms] obtain st k
    where "run_loop (loop_body gen fmt clock cfg prompt thr)
             [0..<nat n] (initial_state s0 prompt) = Inr st"
      and inv: "count_inv k st" and fin: "final_result clock prompt st = Inr r"
    by blast
  show ?thesis
  proof (cases "best_result st")
    case None
    with fin show ?thesis
      by (auto simp: final_result_def split: option.splits sum.splits)
  next
    case (Some r')
    with fin have "r' = r" by (simp add: final_result_def)
    with inv Some show ?thesis by (simp add: count_inv_def)
  qed
qed

text \<open>
  The invariant at a run whose optimizer call fails in the first round: the result has
  zero iterations, score zero and the original prompt.
\<close>

theorem optimize_prompt_result_invariant_witness:
  "optimize_prompt (scripted_stub [reply ''AI is a technology.'', PNone]) echo_template clock_a
     test_config 0 ''Tell me about AI'' 3 (1 / 10) =
   Inr \<lparr>original_prompt = PStr ''Tell me about AI'',
        optimized_prompt = PStr ''Tell me about AI'',
        initial_response = PStr ''AI is a technology.'',
        final_response = PStr ''AI is a technology.'',
        improvement_score = 0, created_at = 1000000,
        metadata = [(''iterations'', PInt 0)]\<rparr> \<and>
   (0::real) \<le> 0 \<and> PStr ''Tell me about AI'' = PStr ''Tell me about AI''"
proof -
  have run: "optimize_prompt (scripted_stub [reply ''AI is a technology.'', PNone])
       echo_template clock_a test_config 0 ''Tell me about AI'' 3 (1 / 10) =
     Inr \<lparr>original_prompt = PStr ''Tell me about AI'',
        optimized_prompt = PStr ''Tell me about AI'',
        initial_response = PStr ''AI is a technology.'',
        final_response = PStr ''AI is a technology.'',
        improvement_score = 0, created_at = 1000000,
        metadata = [(''iterations'', PInt 0)]\<rparr>"
    by (simp add: optimize_prompt_def final_result_def initial_state_def loop_body_def
          run_round_def upt_rec numeral_nat reply_def echo_template_def clock_a_def)
  from optimize_prompt_result_invariant [OF run] run show ?thesis by simp
qed


text \<open>
  The rule at the scenario of the specification: the score is 57 / 19 = 3, above
  0.0 + 0.1, so the first round is accepted and a run of one iteration reports one round.
\<close>

lemma scenario_run_round:
  "run_round (scripted_stub scenario) echo_template test_config
     (initial_state 0 ''Tell me about AI'') =
   Continue (scenario_round_state, PStr ''AI is a technology.'', PStr ''Explain AI in depth'',
             PStr ''AI is a broad field of computer science and engineering..'', 3)"
  by (simp add: run_round_def initial_state_def scenario_def reply_def echo_template_def
        scenario_round_state_def loop_calculate_improvement_def)

lemma scenario_loop_body:
  "loop_body (scripted_stub scenario) echo_template clock_a test_config ''Tell me about AI''
     (1 / 10) 0 (initial_state 0 ''Tell me about AI'') = Continue scenario_accepted_state"
  by (simp add: loop_body_def scenario_run_round scenario_round_state_def
        scenario_accepted_state_def scenario_result_def clock_a_def total_seconds_def)

lemma scenario_optimize_prompt:
  "optimize_prompt (scripted_stub scenario) echo_template clock_a test_config 0
     ''Tell me about AI'' 1 (1 / 10) = Inr scenario_result"
  by (simp add: optimize_prompt_def scenario_loop_body final_result_def
        scenario_accepted_state_def)


subsection \<open>Failing calls and the empty loop\<close>

text \<open>
  C1. A failing Generation Client call stops the loop, which returns the best
  candidate so far or a zero score result, and never raises. Two runs show the code
  raising: when the first executor call returns \<^verbatim>\<open>None\<close>, the statement after the loop
  subscripts that \<^verbatim>\<open>None\<close>; when the executor call on the candidate returns \<^verbatim>\<open>None\<close>,
  the score computation subscripts it unchecked. Both raise \<^verbatim>\<open>TypeError\<close>.
\<close>

theorem optimize_prompt_raises_on_failed_call:
  "optimize_prompt (scripted_stub [PNone]) echo_template clock_a test_config 0
     ''Tell me about AI'' 3 (1 / 10) = Inl TypeError \<and>
   optimize_prompt
     (scripted_stub [reply ''AI is a technology.'', reply ''Explain AI in depth'', PNone])
     echo_template clock_a test_config 0 ''Tell me about AI'' 3 (1 / 10) = Inl TypeError"
  by (simp add: optimize_prompt_def final_result_def initial_state_def loop_body_def
        run_round_def upt_rec numeral_nat reply_def echo_template_def)

text \<open>
  A failing optimizer call, which the loop does check, ends the run with the zero score
  result; a failing executor call after an accepted round ends it with the best result.
\<close>

lemma optimize_prompt_checked_failures:
  "optimize_prompt (scripted_stub [reply ''AI is a technology.'', PNone]) echo_template
     clock_a test_config 0 ''Tell me about AI'' 3 (1 / 10) =
   Inr \<lparr>original_prompt = PStr ''Tell me about AI'',
        optimized_prompt = PStr ''Tell me about AI'',
        initial_response = PStr ''AI is a technology.'',
        final_response = PStr ''AI is a technology.'',
        improvement_score = 0, created_at = 1000000,
        metadata = [(''iterations'', PInt 0)]\<rparr> \<and>
   optimize_prompt (scripted_stub scenario) echo_template clock_a test_config 0
     ''Tell me about AI'' 3 (1 / 10) = Inr scenario_result"
  by (simp add: optimize_prompt_def final_result_def initial_state_def loop_body_def
        run_round_def upt_rec numeral_nat reply_def echo_template_def clock_a_def
        scenario_def scenario_result_def loop_calculate_improvement_def total_seconds_def)

text \<open>
  C5. With \<^verbatim>\<open>max_iterations = 0\<close> the loop should return a result with round count 0 and
  score 0.0 without raising. The loop body never runs, so the variable \<^verbatim>\<open>response\<close> read by
  the statement after the loop is unbound: the call raises \<^verbatim>\<open>UnboundLocalError\<close>, whatever
  the other arguments are.
\<close>

theorem optimize_prompt_zero_iterations:
  "optimize_prompt gen fmt clock cfg s0 prompt 0 thr = Inl UnboundLocalError"
  by (simp add: optimize_prompt_def final_result_def initial_state_def)

subsection \<open>Repeated invocations\<close>

lemma run_round_same:
  assumes "same_but_time st1 st2"
  shows "flow_rel (\<lambda>(a, x) (b, y). same_but_time a b \<and> x = y)
           (run_round gen fmt cfg st1) (run_round gen fmt cfg st2)"
  using assms
  by (auto simp: run_round_def Let_def same_but_time_def split: prod.splits sum.splits)

lemma loop_body_same:
  assumes "same_but_time st1 st2"
  shows "flow_rel same_but_time
           (loop_body gen fmt clock1 cfg prompt thr i st1)
           (loop_body gen fmt clock2 cfg prompt thr i st2)"
proof -
  from run_round_same [OF assms, of gen fmt cfg] show ?thesis
    by (cases "run_round gen fmt cfg st1"; cases "run_round gen fmt cfg st2")
       (auto simp: loop_body_def same_but_time_def timeless_def split: prod.splits)
qed

lemma run_loop_same:
  assumes "same_but_time st1 st2"
  shows "rel_sum (=) same_but_time
           (run_loop (loop_body gen fmt clock1 cfg prompt thr) is st1)
           (run_loop (loop_body gen fmt clock2 cfg prompt thr) is st2)"
  using assms
proof (induction "is" arbitrary: st1 st2)
  case Nil
  then show ?case by simp
next
  case (Cons i rest)
  from loop_body_same [OF Cons.prems, of gen fmt clock1 cfg prompt thr i clock2]
  show ?case
    by (cases "loop_body gen fmt clock1 cfg prompt thr i st1";
        cases "loop_body gen fmt clock2 cfg prompt thr i st2")
       (auto intro: Cons.IH)
qed

lemma final_result_same:
  assumes "same_but_time st1 st2"
  shows "map_sum id timeless (final_result clock1 prompt st1) =
         map_sum id timeless (final_result clock2 prompt st2)"
  using assms
  by (cases "best_result st1"; cases "best_result st2")
     (auto simp: final_result_def same_but_time_def timeless_def
           split: option.splits sum.splits)

text \<open>
  C6 as stated: two invocations with identical inputs against the same deterministic
  stub return identical results. The second invocation reads a later clock; at the
  scenario the two results differ (in \<^verbatim>\<open>created_at\<close> and in the recorded duration).
\<close>

theorem optimize_prompt_clock_dependent:
  "optimize_prompt (scripted_stub scenario) echo_template clock_a test_config 0
     ''Tell me about AI'' 1 (1 / 10) \<noteq>
   optimize_prompt (scripted_stub scenario) echo_template clock_b test_config 0
     ''Tell me about AI'' 1 (1 / 10)"
proof -
  have "optimize_prompt (scripted_stub scenario) echo_template clock_b test_config 0
          ''Tell me about AI'' 1 (1 / 10) =
        Inr (scenario_result\<lparr>created_at := 7000000,
               metadata := [(''iterations'', PInt 1), (''duration'', PFloat 4)]\<rparr>)"
    by (simp add: optimize_prompt_def final_result_def loop_body_def scenario_run_round
          scenario_round_state_def scenario_result_def clock_b_def total_seconds_def)
  then show ?thesis
    by (simp add: scenario_optimize_prompt scenario_result_def)
qed

text \<open>
  C6, amended. Two invocations with identical inputs against the same deterministic
  stub, whatever their clocks read, raise the same exception or return results that agree
  in the original prompt, the optimized prompt, both responses, the score and the
  iteration count.
\<close>

theorem optimize_prompt_timeless_deterministic:
  "map_sum id timeless (optimize_prompt gen fmt clock1 cfg s0 prompt n thr) =
   map_sum id timeless (optimize_prompt gen fmt clock2 cfg s0 prompt n thr)"
proof -
  have "same_but_time (initial_state s0 prompt) (initial_state s0 prompt)"
    by (simp add: same_but_time_def)
  from run_loop_same [OF this, of gen fmt clock1 cfg prompt thr "[0..<nat n]" clock2]
  show ?thesis
    by (cases "run_loop (loop_body gen fmt clock1 cfg prompt thr) [0..<nat n]
                 (initial_state s0 prompt)";
        cases "run_loop (loop_body gen fmt clock2 cfg prompt thr) [0..<nat n]
                 (initial_state s0 prompt)")
       (auto simp: optimize_prompt_def final_result_same)
qed


section \<open>The Benchmark Harness: results\<close>

subsection \<open>Single calls\<close>





subsection \<open>Comprehensions and statistics\<close>








subsection \<open>Concurrent runs\<close>












subsection \<open>Summaries\<close>
















end
